theory Spec2Isabelle
  imports Main "HOL-Library.Word"
begin

section \<open>The error channel of the API (package api, type ErrorMessage)\<close>

subsection \<open>URLs and form values of the Go standard library\<close>

text \<open>
  The fields of Go's \<open>url.URL\<close> that the program reads or writes. \<open>IsAbs\<close> is the
  library's own one-liner (\<open>u.Scheme != ""\<close>). \<open>URL.String\<close> percent-escapes each
  component with tables of the library; the program only compares its result with the
  empty string and hands it to the HTTP layer, so it is a parameter \<open>String\<close> of the
  functions below.
\<close>

record url =
  Scheme :: string
  Opaque :: string
  Host :: string
  Path :: string
  RawQuery :: string
  Fragment :: string

definition IsAbs :: "url \<Rightarrow> bool" where
  "IsAbs u = (Scheme u \<noteq> '''')"

text \<open>
  \<open>url.Values\<close> is \<open>map[string][]string\<close>: an association list with distinct keys.
  \<open>Set\<close> replaces the values of a key by the single value given; \<open>Get\<close> returns the
  first value of a key, or the empty string.
\<close>

type_synonym Values = "(string \<times> string list) list"

fun Values_Set :: "string \<Rightarrow> string \<Rightarrow> Values \<Rightarrow> Values" where
  "Values_Set k x [] = [(k, [x])]"
| "Values_Set k x ((k', xs) # v) =
     (if k' = k then (k, [x]) # v else (k', xs) # Values_Set k x v)"

definition Values_Has :: "Values \<Rightarrow> string \<Rightarrow> bool" where
  "Values_Has v k = (map_of v k \<noteq> None)"

definition Values_Get :: "Values \<Rightarrow> string \<Rightarrow> string" where
  "Values_Get v k = (case map_of v k of Some (x # _) \<Rightarrow> x | _ \<Rightarrow> '''')"

subsection \<open>ErrorMessage and the responses it writes\<close>

record ErrorMessage =
  Err :: "string option"
  RedirectURI :: "url option"
  ResponseType :: string
  State :: string
  Reason :: string
  Description :: string
  ErrorURI :: string

text \<open>
  The one call each method makes on the \<open>gin.Context\<close>: \<open>c.HTML(status, template, \{"error": msg\})\<close>,
  \<open>c.Redirect(status, location)\<close>, \<open>c.JSON(status, msg)\<close>.
\<close>

datatype response =
    HTML nat string ErrorMessage
  | RedirectTo nat string
  | RenderJSON nat ErrorMessage

definition StatusFound :: nat where "StatusFound = 302"
definition StatusBadRequest :: nat where "StatusBadRequest = 400"
definition StatusForbidden :: nat where "StatusForbidden = 403"
definition StatusInternalServerError :: nat where "StatusInternalServerError = 500"


text \<open>
  The response headers other than Content-Type that the call sets: gin's \<open>Redirect\<close>
  sets Location, \<open>HTML\<close> and \<open>JSON\<close> set none.
\<close>

fun response_header :: "response \<Rightarrow> string \<Rightarrow> string option" where
  "response_header (RedirectTo _ loc) h = (if h = ''Location'' then Some loc else None)"
| "response_header (HTML _ _ _) h = None"
| "response_header (RenderJSON _ _) h = None"


text \<open>\<open>ErrorMessage.JSON\<close>: the switch on \<open>msg.Reason\<close>.\<close>

definition JSON :: "ErrorMessage \<Rightarrow> response" where
  "JSON msg =
     (if Reason msg = ''server_error'' then RenderJSON StatusInternalServerError msg
      else if Reason msg = ''invalid_token'' then RenderJSON StatusForbidden msg
      else RenderJSON StatusBadRequest msg)"

subsection \<open>Encoding of form values (net/url)\<close>

text \<open>
  \<open>url.QueryEscape\<close>: letters, digits and \<open>- _ . ~\<close> stay, a space becomes \<open>+\<close>, every
  other byte becomes \<open>%XX\<close> in upper-case hexadecimal.
\<close>

definition upperhex :: string where
  "upperhex = ''0123456789ABCDEF''"

definition shouldEscape :: "char \<Rightarrow> bool" where
  "shouldEscape c =
     (let n = (of_char c :: nat) in
      \<not> ((97 \<le> n \<and> n \<le> 122) \<or> (65 \<le> n \<and> n \<le> 90) \<or> (48 \<le> n \<and> n \<le> 57)
         \<or> c = CHR ''-'' \<or> c = CHR ''_'' \<or> c = CHR ''.'' \<or> c = CHR ''~''))"

fun QueryEscape :: "string \<Rightarrow> string" where
  "QueryEscape [] = []"
| "QueryEscape (c # cs) =
     (if shouldEscape c then
        (if c = CHR '' '' then ''+''
         else [CHR ''%'', upperhex ! (of_char c div 16), upperhex ! (of_char c mod 16)])
      else [c]) @ QueryEscape cs"

text \<open>Go compares strings byte by byte; \<open>Values.Encode\<close> sorts the keys in that order.\<close>

fun string_less :: "string \<Rightarrow> string \<Rightarrow> bool" where
  "string_less [] [] = False"
| "string_less [] (y # ys) = True"
| "string_less (x # xs) [] = False"
| "string_less (x # xs) (y # ys) =
     ((of_char x :: nat) < of_char y \<or> (x = y \<and> string_less xs ys))"

fun insert_key :: "string \<times> string list \<Rightarrow> Values \<Rightarrow> Values" where
  "insert_key kv [] = [kv]"
| "insert_key kv (kv' # v) =
     (if string_less (fst kv') (fst kv) then kv' # insert_key kv v else kv # kv' # v)"

definition sort_keys :: "Values \<Rightarrow> Values" where
  "sort_keys v = foldr insert_key v []"

fun join_amp :: "string list \<Rightarrow> string" where
  "join_amp [] = []"
| "join_amp [s] = s"
| "join_amp (s # t # ss) = s @ ''&'' @ join_amp (t # ss)"

text \<open>\<open>Values.Encode\<close>: \<open>key=value\<close> for every value of every key, keys sorted, joined by \<open>&\<close>.\<close>

definition Encode :: "Values \<Rightarrow> string" where
  "Encode v =
     join_amp (concat (map (\<lambda>(k, xs). map (\<lambda>x. QueryEscape k @ ''='' @ QueryEscape x) xs)
                         (sort_keys v)))"

subsection \<open>ErrorMessage.Redirect\<close>

text \<open>
  The parameter bag \<open>resp\<close> that \<open>Redirect\<close> builds: \<open>state\<close> when the message has one,
  \<open>error\<close> always, \<open>error_description\<close> when the message has one.
\<close>

definition error_params :: "ErrorMessage \<Rightarrow> Values" where
  "error_params msg =
     (let resp = [];
          resp = (if State msg \<noteq> '''' then Values_Set ''state'' (State msg) resp else resp);
          resp = Values_Set ''error'' (Reason msg) resp;
          resp = (if Description msg \<noteq> '''' then
                    Values_Set ''error_description'' (Description msg) resp
                  else resp)
      in resp)"

text \<open>
  The assignment to the redirect URI: the encoded bag goes to the field Fragment when the
  response type is neither \<open>code\<close> nor empty, to the field RawQuery otherwise.
\<close>

definition redirect_target :: "ErrorMessage \<Rightarrow> url \<Rightarrow> url" where
  "redirect_target msg u =
     (if ResponseType msg \<noteq> ''code'' \<and> ResponseType msg \<noteq> '''' then
        u\<lparr>Fragment := Encode (error_params msg)\<rparr>
      else u\<lparr>RawQuery := Encode (error_params msg)\<rparr>)"

text \<open>
  \<open>ErrorMessage.Redirect\<close>. The first argument is \<open>URL.String\<close>. Without a redirect URI
  (nil pointer), with one whose string is empty, or with a relative one, the error page
  is rendered with status 400; otherwise the client is redirected with status 302.
\<close>

definition Redirect :: "(url \<Rightarrow> string) \<Rightarrow> ErrorMessage \<Rightarrow> response" where
  "Redirect String msg =
     (case RedirectURI msg of
        None \<Rightarrow> HTML StatusBadRequest ''error.tmpl'' msg
      | Some u \<Rightarrow>
          if String u = '''' \<or> \<not> IsAbs u then HTML StatusBadRequest ''error.tmpl'' msg
          else RedirectTo StatusFound (String (redirect_target msg u)))"

section \<open>The listen address (package main)\<close>

text \<open>
  \<open>URL.Port\<close> of net/url: the part of Host after the last colon, when that part is
  made of digits only (\<open>splitHostPort\<close>, \<open>validOptionalPort\<close>); empty otherwise.
\<close>

fun LastIndexByte :: "string \<Rightarrow> char \<Rightarrow> nat option" where
  "LastIndexByte [] c = None"
| "LastIndexByte (x # xs) c =
     (case LastIndexByte xs c of
        Some i \<Rightarrow> Some (Suc i)
      | None \<Rightarrow> if x = c then Some 0 else None)"

definition is_digit :: "char \<Rightarrow> bool" where
  "is_digit b = (48 \<le> (of_char b :: nat) \<and> (of_char b :: nat) \<le> 57)"

definition validOptionalPort :: "string \<Rightarrow> bool" where
  "validOptionalPort port =
     (case port of [] \<Rightarrow> True | c # ds \<Rightarrow> c = CHR '':'' \<and> list_all is_digit ds)"

definition Port :: "url \<Rightarrow> string" where
  "Port u =
     (case LastIndexByte (Host u) (CHR '':'') of
        None \<Rightarrow> ''''
      | Some colon \<Rightarrow>
          if validOptionalPort (drop colon (Host u)) then drop (colon + 1) (Host u) else '''')"

datatype panic = NilPointerDereference

text \<open>
  \<open>DecideListenAddress\<close>. Both arguments are pointers; \<open>TCPAddr.String\<close> of package net
  is the first argument of the model. With no listen address the function reads the
  issuer, and panics when that pointer is nil.
\<close>

definition DecideListenAddress ::
  "('addr \<Rightarrow> string) \<Rightarrow> url option \<Rightarrow> 'addr option \<Rightarrow> panic + string" where
  "DecideListenAddress TCPAddr_String issuer listen =
     (case listen of
        Some a \<Rightarrow> Inr (TCPAddr_String a)
      | None \<Rightarrow>
          (case issuer of
             None \<Rightarrow> Inl NilPointerDereference
           | Some u \<Rightarrow>
               if Port u \<noteq> '''' then Inr ('':'' @ Port u)
               else if Scheme u = ''https'' then Inr '':443''
               else Inr '':80''))"

section \<open>Publishing the key (package token, jwk.go)\<close>

subsection \<open>Bytes, base64 and big-endian integers of the standard library\<close>

type_synonym byte = "8 word"

text \<open>
  encoding/base64: three bytes make a 24-bit value (\<open>a<<16 | b<<8 | c\<close>, written
  here as a sum) whose four 6-bit digits index the alphabet; a rest of one or two bytes
  gives two or three characters, and padding when the encoding has a padding character.
\<close>

record Encoding =
  encode :: string
  padChar :: "char option"

definition encodeStd :: string where
  "encodeStd = ''ABCDEFGHIJKLMNOPQRSTUVWXYZabcdefghijklmnopqrstuvwxyz0123456789+/''"

definition encodeURL :: string where
  "encodeURL = ''ABCDEFGHIJKLMNOPQRSTUVWXYZabcdefghijklmnopqrstuvwxyz0123456789-_''"

definition StdEncoding :: Encoding where
  "StdEncoding = \<lparr>encode = encodeStd, padChar = Some (CHR ''='')\<rparr>"

definition RawURLEncoding :: Encoding where
  "RawURLEncoding = \<lparr>encode = encodeURL, padChar = None\<rparr>"

definition padding :: "Encoding \<Rightarrow> nat \<Rightarrow> string" where
  "padding enc k = (case padChar enc of None \<Rightarrow> [] | Some p \<Rightarrow> replicate k p)"

fun EncodeToString :: "Encoding \<Rightarrow> byte list \<Rightarrow> string" where
  "EncodeToString enc [] = []"
| "EncodeToString enc [a] =
     (let val = unat a * 65536 in
      [encode enc ! (val div 262144 mod 64), encode enc ! (val div 4096 mod 64)]
      @ padding enc 2)"
| "EncodeToString enc [a, b] =
     (let val = unat a * 65536 + unat b * 256 in
      [encode enc ! (val div 262144 mod 64), encode enc ! (val div 4096 mod 64),
       encode enc ! (val div 64 mod 64)]
      @ padding enc 1)"
| "EncodeToString enc (a # b # c # rest) =
     (let val = unat a * 65536 + unat b * 256 + unat c in
      [encode enc ! (val div 262144 mod 64), encode enc ! (val div 4096 mod 64),
       encode enc ! (val div 64 mod 64), encode enc ! (val mod 64)])
     @ EncodeToString enc rest"

text \<open>
  Decoding without padding, for the round trip: the position of each character in the
  alphabet is its 6-bit digit; a character outside the alphabet or a single trailing
  character is an error.
\<close>

fun index_of :: "char \<Rightarrow> string \<Rightarrow> nat option" where
  "index_of c [] = None"
| "index_of c (x # xs) =
     (if x = c then Some 0 else map_option Suc (index_of c xs))"

fun digits_of :: "string \<Rightarrow> string \<Rightarrow> nat list option" where
  "digits_of alphabet [] = Some []"
| "digits_of alphabet (c # cs) =
     (case index_of c alphabet of
        None \<Rightarrow> None
      | Some d \<Rightarrow> (case digits_of alphabet cs of None \<Rightarrow> None | Some ds \<Rightarrow> Some (d # ds)))"

fun bytes_of_digits :: "nat list \<Rightarrow> byte list option" where
  "bytes_of_digits [] = Some []"
| "bytes_of_digits [d1] = None"
| "bytes_of_digits [d1, d2] =
     (let val = d1 * 262144 + d2 * 4096 in Some [of_nat (val div 65536)])"
| "bytes_of_digits [d1, d2, d3] =
     (let val = d1 * 262144 + d2 * 4096 + d3 * 64 in
      Some [of_nat (val div 65536), of_nat (val div 256 mod 256)])"
| "bytes_of_digits (d1 # d2 # d3 # d4 # rest) =
     (let val = d1 * 262144 + d2 * 4096 + d3 * 64 + d4 in
      case bytes_of_digits rest of
        None \<Rightarrow> None
      | Some bs \<Rightarrow>
          Some (of_nat (val div 65536) # of_nat (val div 256 mod 256) # of_nat (val mod 256) # bs))"

definition DecodeString :: "Encoding \<Rightarrow> string \<Rightarrow> byte list option" where
  "DecodeString enc s =
     (case digits_of (encode enc) s of None \<Rightarrow> None | Some ds \<Rightarrow> bytes_of_digits ds)"

text \<open>
  \<open>big.Int.Bytes\<close>: the absolute value as big-endian bytes with no leading zero byte
  (no byte at all for zero); \<open>be_value\<close> reads such a slice back (\<open>big.Int.SetBytes\<close>).
\<close>

fun be_bytes :: "nat \<Rightarrow> byte list" where
  "be_bytes n = (if n = 0 then [] else be_bytes (n div 256) @ [of_nat (n mod 256)])"

definition big_Bytes :: "int \<Rightarrow> byte list" where
  "big_Bytes x = be_bytes (nat \<bar>x\<bar>)"

definition be_value :: "byte list \<Rightarrow> nat" where
  "be_value bs = foldl (\<lambda>acc b. acc * 256 + unat b) 0 bs"

text \<open>\<open>binary.BigEndian.PutUint64\<close> on a fresh slice of eight bytes.\<close>

definition PutUint64 :: "64 word \<Rightarrow> byte list" where
  "PutUint64 v =
     [ucast (drop_bit 56 v), ucast (drop_bit 48 v), ucast (drop_bit 40 v),
      ucast (drop_bit 32 v), ucast (drop_bit 24 v), ucast (drop_bit 16 v),
      ucast (drop_bit 8 v), ucast v]"

subsection \<open>bytes2base64 and int2base64\<close>

definition bytes2base64 :: "byte list \<Rightarrow> string" where
  "bytes2base64 b = EncodeToString RawURLEncoding b"

text \<open>The loop \<open>for skip < 8 && bs[skip] == 0x00 \{ skip++ \}\<close>.\<close>

function skip_zero :: "byte list \<Rightarrow> nat \<Rightarrow> nat" where
  "skip_zero bs skip =
     (if skip < 8 \<and> bs ! skip = 0 then skip_zero bs (skip + 1) else skip)"
  by pat_completeness auto
termination
  by (relation "measure (\<lambda>(bs, skip). 8 - skip)") auto

text \<open>
  \<open>int2base64\<close>. Go's \<open>int\<close> has 64 bits on the platforms the server runs on, and
  \<open>uint64(i)\<close> keeps its bits: the argument is a 64-bit word, read as signed by \<open>sint\<close>.
\<close>

definition int2base64 :: "64 word \<Rightarrow> string" where
  "int2base64 i =
     (let bs = PutUint64 i;
          skip = skip_zero bs 0
      in bytes2base64 (drop skip bs))"

subsection \<open>Auxiliary functions of the proofs\<close>

text \<open>
  The 6-bit digits that \<open>EncodeToString\<close> looks up in the alphabet, and the big-endian
  representation of a number on exactly \<open>k\<close> bytes (\<open>PutUint64\<close> is the case \<open>k = 8\<close>).
\<close>

fun sextets :: "byte list \<Rightarrow> nat list" where
  "sextets [] = []"
| "sextets [a] =
     (let val = unat a * 65536 in [val div 262144 mod 64, val div 4096 mod 64])"
| "sextets [a, b] =
     (let val = unat a * 65536 + unat b * 256 in
      [val div 262144 mod 64, val div 4096 mod 64, val div 64 mod 64])"
| "sextets (a # b # c # rest) =
     (let val = unat a * 65536 + unat b * 256 + unat c in
      [val div 262144 mod 64, val div 4096 mod 64, val div 64 mod 64, val mod 64])
     @ sextets rest"

fun fixed_be :: "nat \<Rightarrow> nat \<Rightarrow> byte list" where
  "fixed_be 0 n = []"
| "fixed_be (Suc k) n = fixed_be k (n div 256) @ [of_nat (n mod 256)]"

subsection \<open>makeCert and JWKs\<close>

record PublicKey =
  rsa_N :: int
  rsa_E :: "64 word"

record 'priv Manager =
  private_key :: 'priv
  public_key :: PublicKey

record Certificate =
  Subject_CommonName :: string
  SerialNumber :: int
  NotBefore :: int
  NotAfter :: int

record JWK =
  KeyID :: string
  Use :: string
  Algorithm :: string
  KeyType :: string
  jwk_E :: string
  jwk_N :: string
  X509 :: "string list"

text \<open>\<open>time.Hour\<close>, a duration in nanoseconds; instants are nanoseconds too.\<close>

definition Hour :: int where
  "Hour = 3600000000000"

text \<open>
  The template of \<open>makeCert\<close>. The source calls \<open>time.Now()\<close> twice, once for each
  bound of the validity: \<open>now1\<close> and \<open>now2\<close> are the two readings of the clock, in
  that order.
\<close>

definition cert_template :: "string \<Rightarrow> int \<Rightarrow> int \<Rightarrow> Certificate" where
  "cert_template hostname now1 now2 =
     \<lparr>Subject_CommonName = hostname, SerialNumber = 0,
      NotBefore = now1, NotAfter = now2 + 1 * Hour\<rparr>"

text \<open>
  A certificate records the two bounds of its validity in whole seconds: the DER
  encoding of \<open>x509.CreateCertificate\<close> drops the fraction of a second.
  \<open>validity_seconds\<close> is the length of the validity period of the certificate made
  from a template.
\<close>

definition whole_seconds :: "int \<Rightarrow> int" where
  "whole_seconds t = t div 1000000000"

definition validity_seconds :: "Certificate \<Rightarrow> int" where
  "validity_seconds c = whole_seconds (NotAfter c) - whole_seconds (NotBefore c)"

text \<open>
  \<open>makeCert\<close>. The first argument is \<open>x509.CreateCertificate\<close> with its random source:
  from the template, the parent, the public key and the signer's private key it gives
  the DER bytes or an error.
\<close>

definition makeCert ::
  "(Certificate \<Rightarrow> Certificate \<Rightarrow> PublicKey \<Rightarrow> 'priv \<Rightarrow> string + byte list) \<Rightarrow>
   int \<Rightarrow> int \<Rightarrow> string \<Rightarrow> PublicKey \<Rightarrow> 'priv \<Rightarrow> string + string" where
  "makeCert CreateCertificate now1 now2 hostname pub priv =
     (let template = cert_template hostname now1 now2 in
      case CreateCertificate template template pub priv of
        Inl err \<Rightarrow> Inl err
      | Inr b \<Rightarrow> Inr (EncodeToString StdEncoding b))"

text \<open>
  \<open>Manager.JWKs\<close>. \<open>key_id\<close> is \<open>m.KeyID().String()\<close>, a method of the manager defined
  with the type.
\<close>

definition JWKs ::
  "(Certificate \<Rightarrow> Certificate \<Rightarrow> PublicKey \<Rightarrow> 'priv \<Rightarrow> string + byte list) \<Rightarrow>
   ('priv Manager \<Rightarrow> string) \<Rightarrow> int \<Rightarrow> int \<Rightarrow> 'priv Manager \<Rightarrow> string \<Rightarrow>
   string + JWK list" where
  "JWKs CreateCertificate key_id now1 now2 m hostname =
     (case makeCert CreateCertificate now1 now2 hostname (public_key m) (private_key m) of
        Inl err \<Rightarrow> Inl err
      | Inr cert \<Rightarrow>
          Inr [\<lparr>KeyID = key_id m, Use = ''sig'', Algorithm = ''RS256'', KeyType = ''RSA'',
                jwk_E = int2base64 (rsa_E (public_key m)),
                jwk_N = bytes2base64 (big_Bytes (rsa_N (public_key m))),
                X509 = [cert]\<rparr>])"

section \<open>The request normaliser of the authorization endpoint\<close>

text \<open>
  The handler of the authorization endpoint is not among the sources at hand (its tests
  are); the two steps below follow section 4.3 of the specification. A request is a
  partial map from parameter names to values; \<open>request_keys\<close> are the parameters of an
  authorization request, in the order in which the tests expect them to be reported.
\<close>

type_synonym params = "string \<Rightarrow> string option"

definition request_keys :: "string list" where
  "request_keys =
     [''response_type'', ''client_id'', ''redirect_uri'', ''scope'', ''state'', ''nonce'',
      ''max_age'', ''prompt'', ''login_hint'']"

record Client =
  RedirectURIs :: "string list"
  ClientSecret :: "string option"

definition page_error :: "url option \<Rightarrow> ErrorMessage" where
  "page_error target =
     \<lparr>Err = None, RedirectURI = target, ResponseType = '''', State = '''',
      Reason = ''invalid_request'', Description = '''', ErrorURI = ''''\<rparr>"

text \<open>
  Modelled from the spec: step 1 of the request normaliser, which is missing from the
  sources. It fails with \<open>invalid_request\<close> when \<open>client_id\<close> is missing, the client is
  unknown, \<open>redirect_uri\<close> is missing, un-parseable, relative, or not registered for the
  client; these errors have no place to redirect to, so the message names no redirect
  target. \<open>Parse\<close> is \<open>url.Parse\<close> (None on error), \<open>Resolve\<close> the client registry.
\<close>

definition check_target ::
  "(string \<Rightarrow> url option) \<Rightarrow> (string \<Rightarrow> Client option) \<Rightarrow> params \<Rightarrow> ErrorMessage option" where
  "check_target Parse Resolve p =
     (case p ''client_id'' of
        None \<Rightarrow> Some (page_error None)
      | Some cid \<Rightarrow>
          (case Resolve cid of
             None \<Rightarrow> Some (page_error None)
           | Some cl \<Rightarrow>
               (case p ''redirect_uri'' of
                  None \<Rightarrow> Some (page_error None)
                | Some r \<Rightarrow>
                    (case Parse r of
                       None \<Rightarrow> Some (page_error None)
                     | Some u \<Rightarrow>
                         if \<not> IsAbs u \<or> r \<notin> set (RedirectURIs cl)
                         then Some (page_error None)
                         else None))))"

text \<open>
  Modelled from the spec: step 4 of the request normaliser, which is missing from the
  sources. The keys that appear in both the outer parameters and the request object with
  differing values are reported; with none, the request object fills in the fields
  absent outside. A request object that fails to decode or verify is None.
\<close>

definition differs :: "params \<Rightarrow> params \<Rightarrow> string \<Rightarrow> bool" where
  "differs outer inner k =
     (case outer k of
        None \<Rightarrow> False
      | Some a \<Rightarrow> (case inner k of None \<Rightarrow> False | Some b \<Rightarrow> a \<noteq> b))"

definition mismatched_keys :: "params \<Rightarrow> params \<Rightarrow> string list" where
  "mismatched_keys outer inner = filter (differs outer inner) request_keys"

fun join_comma :: "string list \<Rightarrow> string" where
  "join_comma [] = []"
| "join_comma [s] = s"
| "join_comma (s # t # ss) = s @ '', '' @ join_comma (t # ss)"

definition merge_request_object :: "params \<Rightarrow> params \<Rightarrow> params" where
  "merge_request_object outer inner =
     (\<lambda>k. case outer k of Some a \<Rightarrow> Some a | None \<Rightarrow> inner k)"

definition bind_request_object :: "params \<Rightarrow> params option \<Rightarrow> (string \<times> string) + params" where
  "bind_request_object outer request =
     (case request of
        None \<Rightarrow>
          Inl (''invalid_request_object'', ''failed to decode or validation request object'')
      | Some inner \<Rightarrow>
          if mismatched_keys outer inner \<noteq> [] then
            Inl (''invalid_request_object'',
                 ''mismatch query parameter and request object: ''
                   @ join_comma (mismatched_keys outer inner))
          else Inr (merge_request_object outer inner))"

section \<open>Client authentication of the token endpoint\<close>








section \<open>Properties of the error channel\<close>

subsection \<open>The parameter bag and its encoding\<close>

lemma map_of_Values_Set:
  "map_of (Values_Set k x v) = (map_of v)(k \<mapsto> [x])"
  by (induction v) (auto simp: fun_eq_iff)

lemma error_params_state:
  "map_of (error_params msg) ''state'' = (if State msg = '''' then None else Some [State msg])"
  by (simp add: error_params_def map_of_Values_Set Let_def)

text \<open>
  The encoded bag, spelled out: the keys are sorted, so \<open>error\<close> comes first, then
  \<open>error_description\<close>, then \<open>state\<close>.
\<close>

lemma Encode_error_params:
  "Encode (error_params msg) =
     join_amp ([''error='' @ QueryEscape (Reason msg)]
       @ (if Description msg = '''' then []
          else [''error_description='' @ QueryEscape (Description msg)])
       @ (if State msg = '''' then [] else [''state='' @ QueryEscape (State msg)]))"
  by (simp add: error_params_def Encode_def sort_keys_def shouldEscape_def Let_def)

lemma Redirect_no_target:
  assumes "RedirectURI msg = None
           \<or> (\<exists>u. RedirectURI msg = Some u \<and> (String u = '''' \<or> \<not> IsAbs u))"
  shows "Redirect String msg = HTML 400 ''error.tmpl'' msg"
  using assms by (auto simp: Redirect_def StatusBadRequest_def)

subsection \<open>Where the error parameters are placed\<close>

text \<open>
  C1 (amended). For every error reported by a redirect (the redirect URI is present, its
  string is not empty and it is absolute), the response is a 302 whose location is the
  redirect URI with the encoded error parameters in its query component when the
  response type is \<open>code\<close> or empty, and in its fragment component for every other
  response type.
\<close>

theorem Redirect_placement:
  assumes "RedirectURI msg = Some u" and "String u \<noteq> ''''" and "IsAbs u"
  shows "Redirect String msg =
           RedirectTo 302
             (String (if ResponseType msg = ''code'' \<or> ResponseType msg = ''''
                      then u\<lparr>RawQuery := Encode (error_params msg)\<rparr>
                      else u\<lparr>Fragment := Encode (error_params msg)\<rparr>))"
  using assms by (auto simp: Redirect_def redirect_target_def StatusFound_def)

theorem Redirect_placement_witness:
  "Redirect
     (\<lambda>u. Scheme u @ ''://'' @ Host u @ Path u
          @ (if RawQuery u = '''' then '''' else ''?'' @ RawQuery u)
          @ (if Fragment u = '''' then '''' else ''#'' @ Fragment u))
     \<lparr>Err = None,
      RedirectURI = Some \<lparr>Scheme = ''http'', Opaque = '''', Host = ''some-client.example.com'',
                           Path = ''/callback'', RawQuery = '''', Fragment = ''''\<rparr>,
      ResponseType = ''code hogefuga'', State = '''',
      Reason = ''unsupported_response_type'',
      Description = ''response_type \"hogefuga\" is not supported'', ErrorURI = ''''\<rparr>
   = RedirectTo 302
       ''http://some-client.example.com/callback#error=unsupported_response_type&error_description=response_type+%22hogefuga%22+is+not+supported''"
  using Redirect_placement
    [of "\<lparr>Err = None,
      RedirectURI = Some \<lparr>Scheme = ''http'', Opaque = '''', Host = ''some-client.example.com'',
                           Path = ''/callback'', RawQuery = '''', Fragment = ''''\<rparr>,
      ResponseType = ''code hogefuga'', State = '''',
      Reason = ''unsupported_response_type'',
      Description = ''response_type \"hogefuga\" is not supported'', ErrorURI = ''''\<rparr>"
      "\<lparr>Scheme = ''http'', Opaque = '''', Host = ''some-client.example.com'',
                           Path = ''/callback'', RawQuery = '''', Fragment = ''''\<rparr>"
      "(\<lambda>u. Scheme u @ ''://'' @ Host u @ Path u
          @ (if RawQuery u = '''' then '''' else ''?'' @ RawQuery u)
          @ (if Fragment u = '''' then '''' else ''#'' @ Fragment u))"]
  by (simp add: IsAbs_def Encode_error_params shouldEscape_def upperhex_def)

text \<open>
  The claim as first stated (query if and only if the response type is exactly \<open>code\<close>)
  fails for the empty response type: the test "missing response_type" of authz_test.go
  expects the parameters in the query, and so does the code.
\<close>

theorem Redirect_placement_counterexample:
  "ResponseType \<lparr>Err = None, RedirectURI = None, ResponseType = '''', State = '''',
       Reason = ''unsupported_response_type'', Description = ''response_type is required'',
       ErrorURI = ''''\<rparr> \<noteq> ''code''
   \<and> redirect_target
       \<lparr>Err = None, RedirectURI = None, ResponseType = '''', State = '''',
        Reason = ''unsupported_response_type'', Description = ''response_type is required'',
        ErrorURI = ''''\<rparr>
       \<lparr>Scheme = ''http'', Opaque = '''', Host = ''some-client.example.com'',
        Path = ''/callback'', RawQuery = '''', Fragment = ''''\<rparr>
     = \<lparr>Scheme = ''http'', Opaque = '''', Host = ''some-client.example.com'',
        Path = ''/callback'',
        RawQuery = ''error=unsupported_response_type&error_description=response_type+is+required'',
        Fragment = ''''\<rparr>"
  by (simp add: redirect_target_def Encode_error_params shouldEscape_def)

subsection \<open>Errors that have no redirect target\<close>

text \<open>
  C2. An error message without a redirect URI, or with one whose string is empty or that
  is relative, is rendered as the HTML error page with status 400 and sets no Location
  header. So is the error of every authorization request in which \<open>client_id\<close> is missing,
  the client is unknown, or \<open>redirect_uri\<close> is missing, un-parseable or relative.
\<close>

theorem error_page_without_target:
  "(RedirectURI msg = None
      \<or> (\<exists>u. RedirectURI msg = Some u \<and> (String u = '''' \<or> \<not> IsAbs u))
    \<longrightarrow> Redirect String msg = HTML 400 ''error.tmpl'' msg
        \<and> response_header (Redirect String msg) ''Location'' = None)
   \<and> (p ''client_id'' = None
        \<or> (\<exists>cid. p ''client_id'' = Some cid \<and> Resolve cid = None)
        \<or> p ''redirect_uri'' = None
        \<or> (\<exists>r. p ''redirect_uri'' = Some r
               \<and> (Parse r = None \<or> (\<exists>u. Parse r = Some u \<and> \<not> IsAbs u)))
      \<longrightarrow> (\<exists>m. check_target Parse Resolve p = Some m
               \<and> Redirect String m = HTML 400 ''error.tmpl'' m
               \<and> response_header (Redirect String m) ''Location'' = None))"
proof (rule conjI; rule impI)
  assume "RedirectURI msg = None
      \<or> (\<exists>u. RedirectURI msg = Some u \<and> (String u = '''' \<or> \<not> IsAbs u))"
  then have "Redirect String msg = HTML 400 ''error.tmpl'' msg" by (rule Redirect_no_target)
  then show "Redirect String msg = HTML 400 ''error.tmpl'' msg
        \<and> response_header (Redirect String msg) ''Location'' = None" by simp
next
  assume "p ''client_id'' = None
        \<or> (\<exists>cid. p ''client_id'' = Some cid \<and> Resolve cid = None)
        \<or> p ''redirect_uri'' = None
        \<or> (\<exists>r. p ''redirect_uri'' = Some r
               \<and> (Parse r = None \<or> (\<exists>u. Parse r = Some u \<and> \<not> IsAbs u)))"
  then have t: "check_target Parse Resolve p = Some (page_error None)"
    by (auto simp: check_target_def split: option.splits)
  have "Redirect String (page_error None) = HTML 400 ''error.tmpl'' (page_error None)"
    by (rule Redirect_no_target) (simp add: page_error_def)
  with t show "\<exists>m. check_target Parse Resolve p = Some m
               \<and> Redirect String m = HTML 400 ''error.tmpl'' m
               \<and> response_header (Redirect String m) ''Location'' = None" by simp
qed

text \<open>
  The tests "relative redirect_uri" (on the message) and "missing client_id" (on the
  request) of authz_test.go.
\<close>

theorem error_page_without_target_witness:
  "Redirect (\<lambda>u. Scheme u @ ''://'' @ Host u @ Path u)
     (page_error (Some \<lparr>Scheme = '''', Opaque = '''', Host = '''',
                         Path = ''/invalid/relative/url'', RawQuery = '''', Fragment = ''''\<rparr>))
   = HTML 400 ''error.tmpl''
       (page_error (Some \<lparr>Scheme = '''', Opaque = '''', Host = '''',
                           Path = ''/invalid/relative/url'', RawQuery = '''', Fragment = ''''\<rparr>))
   \<and> check_target (\<lambda>r. None) (\<lambda>c. None)
       [''redirect_uri'' \<mapsto> ''http://some-client.example.com/callback'',
        ''response_type'' \<mapsto> ''code''] = Some (page_error None)
   \<and> Redirect (\<lambda>u. Scheme u @ ''://'' @ Host u @ Path u) (page_error None)
       = HTML 400 ''error.tmpl'' (page_error None)"
  using error_page_without_target
    [of "page_error (Some \<lparr>Scheme = '''', Opaque = '''', Host = '''',
                         Path = ''/invalid/relative/url'', RawQuery = '''', Fragment = ''''\<rparr>)"
        "\<lambda>u. Scheme u @ ''://'' @ Host u @ Path u"
        "[''redirect_uri'' \<mapsto> ''http://some-client.example.com/callback'',
          ''response_type'' \<mapsto> ''code'']"
        "\<lambda>c. None" "\<lambda>r. None"]
  by (auto simp: check_target_def page_error_def IsAbs_def)

subsection \<open>The state parameter\<close>

text \<open>
  C6. For every error redirect, the location is the redirect URI carrying the encoded
  error parameters, and these contain \<open>state\<close> if and only if the message has a
  non-empty state; its value is then that state, unchanged.
\<close>

theorem Redirect_state:
  assumes "Redirect String msg = RedirectTo s loc"
  shows "\<exists>u. RedirectURI msg = Some u
             \<and> loc = String (redirect_target msg u)
             \<and> (if ResponseType msg = ''code'' \<or> ResponseType msg = ''''
                 then RawQuery (redirect_target msg u)
                 else Fragment (redirect_target msg u)) = Encode (error_params msg)
             \<and> Values_Has (error_params msg) ''state'' = (State msg \<noteq> '''')
             \<and> (State msg \<noteq> '''' \<longrightarrow>
                   map_of (error_params msg) ''state'' = Some [State msg]
                   \<and> Values_Get (error_params msg) ''state'' = State msg)"
  using assms
  by (auto simp: Redirect_def redirect_target_def Values_Has_def Values_Get_def
        error_params_state split: option.splits if_splits)

theorem Redirect_state_witness:
  "Redirect (\<lambda>u. Scheme u @ ''://'' @ Host u @ Path u
               @ (if RawQuery u = '''' then '''' else ''?'' @ RawQuery u)
               @ (if Fragment u = '''' then '''' else ''#'' @ Fragment u))
     \<lparr>Err = None,
      RedirectURI = Some \<lparr>Scheme = ''http'', Opaque = '''', Host = ''some-client.example.com'',
                           Path = ''/callback'', RawQuery = '''', Fragment = ''''\<rparr>,
      ResponseType = ''code'', State = ''this is state'',
      Reason = ''invalid_request_object'', Description = '''', ErrorURI = ''''\<rparr>
   = RedirectTo 302
       ''http://some-client.example.com/callback?error=invalid_request_object&state=this+is+state''
   \<and> Values_Get (error_params
        \<lparr>Err = None,
         RedirectURI = Some \<lparr>Scheme = ''http'', Opaque = '''', Host = ''some-client.example.com'',
                              Path = ''/callback'', RawQuery = '''', Fragment = ''''\<rparr>,
         ResponseType = ''code'', State = ''this is state'',
         Reason = ''invalid_request_object'', Description = '''', ErrorURI = ''''\<rparr>) ''state''
       = ''this is state''"
proof -
  let ?S = "\<lambda>u. Scheme u @ ''://'' @ Host u @ Path u
               @ (if RawQuery u = '''' then '''' else ''?'' @ RawQuery u)
               @ (if Fragment u = '''' then '''' else ''#'' @ Fragment u)"
  let ?m = "\<lparr>Err = None,
      RedirectURI = Some \<lparr>Scheme = ''http'', Opaque = '''', Host = ''some-client.example.com'',
                           Path = ''/callback'', RawQuery = '''', Fragment = ''''\<rparr>,
      ResponseType = ''code'', State = ''this is state'',
      Reason = ''invalid_request_object'', Description = '''', ErrorURI = ''''\<rparr>"
  have r: "Redirect ?S ?m = RedirectTo 302
       ''http://some-client.example.com/callback?error=invalid_request_object&state=this+is+state''"
    by (simp add: Redirect_def IsAbs_def redirect_target_def StatusFound_def
          Encode_error_params shouldEscape_def)
  from Redirect_state [OF r] have "Values_Get (error_params ?m) ''state'' = ''this is state''"
    by simp
  with r show ?thesis by simp
qed

subsection \<open>Status codes of JSON errors\<close>

text \<open>
  C5. The status code of every JSON error response is a function of the error kind alone:
  403 for \<open>invalid_token\<close>, 500 for \<open>server_error\<close>, 400 for every other kind; the body is
  the message itself.
\<close>

theorem JSON_status_by_reason:
  "JSON msg = RenderJSON (if Reason msg = ''invalid_token'' then 403
                          else if Reason msg = ''server_error'' then 500 else 400) msg"
  by (simp add: JSON_def StatusInternalServerError_def StatusForbidden_def StatusBadRequest_def)




section \<open>Properties of the request object\<close>

lemma set_mismatched_keys:
  "set (mismatched_keys outer inner) =
     {k \<in> set request_keys. \<exists>a b. outer k = Some a \<and> inner k = Some b \<and> a \<noteq> b}"
  by (auto simp: mismatched_keys_def differs_def split: option.splits)

text \<open>
  C3. For every pair of outer parameters and decoded request object, the keys reported
  are exactly the request parameters present on both sides with differing values; a key
  absent on one side is never reported; the error names the reported keys; and when
  there is none, no error is raised and the request object fills in the parameters
  absent outside.
\<close>

theorem mismatch_report:
  "set (mismatched_keys outer inner) =
     {k \<in> set request_keys. \<exists>a b. outer k = Some a \<and> inner k = Some b \<and> a \<noteq> b}
   \<and> (\<forall>k. outer k = None \<or> inner k = None \<longrightarrow> k \<notin> set (mismatched_keys outer inner))
   \<and> (mismatched_keys outer inner \<noteq> [] \<longrightarrow>
        bind_request_object outer (Some inner) =
          Inl (''invalid_request_object'',
               ''mismatch query parameter and request object: ''
                 @ join_comma (mismatched_keys outer inner)))
   \<and> (mismatched_keys outer inner = [] \<longrightarrow>
        (\<exists>merged. bind_request_object outer (Some inner) = Inr merged
           \<and> (\<forall>k. merged k = (case outer k of Some a \<Rightarrow> Some a | None \<Rightarrow> inner k))))"
  by (auto simp: set_mismatched_keys bind_request_object_def merge_request_object_def)

text \<open>The test "request object / mismatch some values" of authz_test.go.\<close>

theorem mismatch_report_witness:
  "bind_request_object
     [''redirect_uri'' \<mapsto> ''http://some-client.example.com/callback'',
      ''client_id'' \<mapsto> ''some_client_id'',
      ''response_type'' \<mapsto> ''code'',
      ''scope'' \<mapsto> ''openid profile'',
      ''state'' \<mapsto> ''this is state'',
      ''nonce'' \<mapsto> ''this is nonce'',
      ''max_age'' \<mapsto> ''123'',
      ''prompt'' \<mapsto> ''login'',
      ''login_hint'' \<mapsto> ''macrat'']
     (Some
       [''iss'' \<mapsto> ''some_client_id'',
        ''client_id'' \<mapsto> ''another_client_id'',
        ''response_type'' \<mapsto> ''token'',
        ''redirect_uri'' \<mapsto> ''http://another-client.example.com/callback'',
        ''scope'' \<mapsto> ''openid profile email'',
        ''state'' \<mapsto> ''this is another state'',
        ''nonce'' \<mapsto> ''this is nonce'',
        ''max_age'' \<mapsto> ''123'',
        ''prompt'' \<mapsto> ''login'',
        ''login_hint'' \<mapsto> ''macrat''])
   = Inl (''invalid_request_object'',
          ''mismatch query parameter and request object: response_type, client_id, redirect_uri, scope, state'')"
  using mismatch_report
    [of "[''redirect_uri'' \<mapsto> ''http://some-client.example.com/callback'',
      ''client_id'' \<mapsto> ''some_client_id'',
      ''response_type'' \<mapsto> ''code'',
      ''scope'' \<mapsto> ''openid profile'',
      ''state'' \<mapsto> ''this is state'',
      ''nonce'' \<mapsto> ''this is nonce'',
      ''max_age'' \<mapsto> ''123'',
      ''prompt'' \<mapsto> ''login'',
      ''login_hint'' \<mapsto> ''macrat'']"
     "[''iss'' \<mapsto> ''some_client_id'',
        ''client_id'' \<mapsto> ''another_client_id'',
        ''response_type'' \<mapsto> ''token'',
        ''redirect_uri'' \<mapsto> ''http://another-client.example.com/callback'',
        ''scope'' \<mapsto> ''openid profile email'',
        ''state'' \<mapsto> ''this is another state'',
        ''nonce'' \<mapsto> ''this is nonce'',
        ''max_age'' \<mapsto> ''123'',
        ''prompt'' \<mapsto> ''login'',
        ''login_hint'' \<mapsto> ''macrat'']"]
  by (simp add: mismatched_keys_def differs_def request_keys_def)

text \<open>The test "request object / mismatch another some values".\<close>

lemma mismatch_another_some_values:
  "bind_request_object
     [''redirect_uri'' \<mapsto> ''http://some-client.example.com/callback'',
      ''client_id'' \<mapsto> ''some_client_id'',
      ''response_type'' \<mapsto> ''code'',
      ''scope'' \<mapsto> ''openid profile'',
      ''state'' \<mapsto> ''this is state'',
      ''nonce'' \<mapsto> ''this is nonce'',
      ''max_age'' \<mapsto> ''123'',
      ''prompt'' \<mapsto> ''login'',
      ''login_hint'' \<mapsto> ''macrat'']
     (Some
       [''iss'' \<mapsto> ''some_client_id'',
        ''client_id'' \<mapsto> ''some_client_id'',
        ''response_type'' \<mapsto> ''code'',
        ''redirect_uri'' \<mapsto> ''http://some-client.example.com/callback'',
        ''scope'' \<mapsto> ''openid profile'',
        ''state'' \<mapsto> ''this is state'',
        ''nonce'' \<mapsto> ''this is anothernonce'',
        ''max_age'' \<mapsto> ''42'',
        ''prompt'' \<mapsto> ''consent'',
        ''login_hint'' \<mapsto> ''j.smith''])
   = Inl (''invalid_request_object'',
          ''mismatch query parameter and request object: nonce, max_age, prompt, login_hint'')"
  by (simp add: bind_request_object_def mismatched_keys_def differs_def request_keys_def)

section \<open>Properties of the listen address\<close>

text \<open>
  A host of the form \<open>name:digits\<close> has the port \<open>digits\<close>.
\<close>

lemma LastIndexByte_append_colon:
  "CHR '':'' \<notin> set ds \<Longrightarrow> LastIndexByte (h @ CHR '':'' # ds) (CHR '':'') = Some (length h)"
proof (induction h)
  case Nil
  have "LastIndexByte ds (CHR '':'') = None" using Nil
    by (induction ds) (auto split: option.splits)
  then show ?case by simp
next
  case (Cons x h)
  then show ?case by simp
qed

lemma Port_explicit:
  assumes "Host u = h @ '':'' @ ds" and "list_all is_digit ds"
  shows "Port u = ds"
proof -
  have "CHR '':'' \<notin> set ds"
    using assms(2) by (auto simp: list_all_iff is_digit_def)
  then have "LastIndexByte (Host u) (CHR '':'') = Some (length h)"
    using assms(1) LastIndexByte_append_colon [of ds h] by simp
  then show ?thesis using assms by (simp add: Port_def validOptionalPort_def)
qed

text \<open>
  C9. \<open>DecideListenAddress\<close> returns the configured listen address when there is one;
  otherwise \<open>:port\<close> when the issuer URL has an explicit port; otherwise \<open>:443\<close> for the
  scheme https and \<open>:80\<close> for any other scheme.
\<close>

theorem DecideListenAddress_cases:
  "(listen = Some a \<longrightarrow> DecideListenAddress TCPAddr_String issuer listen = Inr (TCPAddr_String a))
   \<and> (listen = None \<and> issuer = Some u \<and> Port u \<noteq> '''' \<longrightarrow>
        DecideListenAddress TCPAddr_String issuer listen = Inr ('':'' @ Port u))
   \<and> (listen = None \<and> issuer = Some u \<and> Port u = '''' \<and> Scheme u = ''https'' \<longrightarrow>
        DecideListenAddress TCPAddr_String issuer listen = Inr '':443'')
   \<and> (listen = None \<and> issuer = Some u \<and> Port u = '''' \<and> Scheme u \<noteq> ''https'' \<longrightarrow>
        DecideListenAddress TCPAddr_String issuer listen = Inr '':80'')"
  by (simp add: DecideListenAddress_def)

theorem DecideListenAddress_cases_witness:
  "DecideListenAddress (\<lambda>a :: string. a) 
     (Some \<lparr>Scheme = ''https'', Opaque = '''', Host = ''auth.example.com:8443'', Path = '''',
            RawQuery = '''', Fragment = ''''\<rparr>) None = Inr '':8443''
   \<and> DecideListenAddress (\<lambda>a :: string. a) 
     (Some \<lparr>Scheme = ''https'', Opaque = '''', Host = ''auth.example.com'', Path = '''',
            RawQuery = '''', Fragment = ''''\<rparr>) None = Inr '':443''
   \<and> DecideListenAddress (\<lambda>a :: string. a) 
     (Some \<lparr>Scheme = ''http'', Opaque = '''', Host = ''auth.example.com'', Path = '''',
            RawQuery = '''', Fragment = ''''\<rparr>) None = Inr '':80''
   \<and> DecideListenAddress (\<lambda>a :: string. a) 
     (Some \<lparr>Scheme = ''http'', Opaque = '''', Host = ''auth.example.com'', Path = '''',
            RawQuery = '''', Fragment = ''''\<rparr>) (Some ''127.0.0.1:8000'') = Inr ''127.0.0.1:8000''"
  using
    DecideListenAddress_cases [of None "''''" "\<lambda>a :: string. a"
      "Some \<lparr>Scheme = ''https'', Opaque = '''', Host = ''auth.example.com:8443'', Path = '''',
            RawQuery = '''', Fragment = ''''\<rparr>"
      "\<lparr>Scheme = ''https'', Opaque = '''', Host = ''auth.example.com:8443'', Path = '''',
            RawQuery = '''', Fragment = ''''\<rparr>"]
    DecideListenAddress_cases [of None "''''" "\<lambda>a :: string. a"
      "Some \<lparr>Scheme = ''https'', Opaque = '''', Host = ''auth.example.com'', Path = '''',
            RawQuery = '''', Fragment = ''''\<rparr>"
      "\<lparr>Scheme = ''https'', Opaque = '''', Host = ''auth.example.com'', Path = '''',
            RawQuery = '''', Fragment = ''''\<rparr>"]
    DecideListenAddress_cases [of None "''''" "\<lambda>a :: string. a"
      "Some \<lparr>Scheme = ''http'', Opaque = '''', Host = ''auth.example.com'', Path = '''',
            RawQuery = '''', Fragment = ''''\<rparr>"
      "\<lparr>Scheme = ''http'', Opaque = '''', Host = ''auth.example.com'', Path = '''',
            RawQuery = '''', Fragment = ''''\<rparr>"]
    DecideListenAddress_cases [of "Some ''127.0.0.1:8000''" "''127.0.0.1:8000''" "\<lambda>a :: string. a"
      "Some \<lparr>Scheme = ''http'', Opaque = '''', Host = ''auth.example.com'', Path = '''',
            RawQuery = '''', Fragment = ''''\<rparr>"
      "\<lparr>Scheme = ''http'', Opaque = '''', Host = ''auth.example.com'', Path = '''',
            RawQuery = '''', Fragment = ''''\<rparr>"]
  by (simp add: Port_def validOptionalPort_def is_digit_def)

section \<open>Properties of the published key\<close>

subsection \<open>Big-endian bytes\<close>

declare be_bytes.simps [simp del]

lemma ucast_drop_bit_byte:
  "(ucast (drop_bit k (v :: 64 word)) :: byte) = of_nat (unat v div 2 ^ k)"
proof -
  have "unat (drop_bit k v) = unat v div 2 ^ k"
    by (simp only: unat_drop_bit_eq) (simp add: drop_bit_eq_div)
  then show ?thesis
    by (simp add: word_unat_eq_iff unsigned_ucast_eq take_bit_eq_mod unat_of_nat)
qed

lemma unat_drop_bit_div: "unat (drop_bit k (v :: 64 word)) = unat v div 2 ^ k"
  by (simp only: unat_drop_bit_eq) (simp add: drop_bit_eq_div)

lemma ucast_byte: "(ucast (v :: 64 word) :: byte) = of_nat (unat v)"
  using ucast_drop_bit_byte [of 0 v] by simp

lemma of_nat_mod_256: "(of_nat (n mod 256) :: byte) = of_nat n"
  by (simp add: word_unat_eq_iff unat_of_nat)

lemma fixed_be_8:
  "fixed_be (Suc (Suc (Suc (Suc (Suc (Suc (Suc (Suc 0)))))))) n =
     [of_nat (n div 2 ^ 56), of_nat (n div 2 ^ 48), of_nat (n div 2 ^ 40),
      of_nat (n div 2 ^ 32), of_nat (n div 2 ^ 24), of_nat (n div 2 ^ 16),
      of_nat (n div 2 ^ 8), of_nat n]"
  by (simp add: of_nat_mod_256 div_mult2_eq [symmetric])

lemma PutUint64_fixed_be: "PutUint64 v = fixed_be 8 (unat v)"
proof -
  have e: "(8::nat) = Suc (Suc (Suc (Suc (Suc (Suc (Suc (Suc 0)))))))" by simp
  have "fixed_be 8 (unat v) =
     [of_nat (unat v div 2 ^ 56), of_nat (unat v div 2 ^ 48), of_nat (unat v div 2 ^ 40),
      of_nat (unat v div 2 ^ 32), of_nat (unat v div 2 ^ 24), of_nat (unat v div 2 ^ 16),
      of_nat (unat v div 2 ^ 8), of_nat (unat v)]"
    by (subst e) (rule fixed_be_8)
  then show ?thesis
    by (simp only: PutUint64_def ucast_byte unat_drop_bit_div)
qed

lemma length_fixed_be: "length (fixed_be k n) = k"
  by (induction k arbitrary: n) auto

lemma byte_of_nat_eq_0: "n < 256 \<Longrightarrow> (of_nat n :: byte) = 0 \<longleftrightarrow> n = 0"
  by (simp add: word_unat_eq_iff unat_of_nat)

lemma be_bytes_eq_Nil: "be_bytes n = [] \<longleftrightarrow> n = 0"
  by (subst be_bytes.simps) simp

lemma be_bytes_0: "be_bytes 0 = []"
  by (simp add: be_bytes_eq_Nil)

text \<open>Stripping the leading zero bytes of a fixed-width representation gives the minimal one.\<close>

lemma dropWhile_fixed_be:
  "n < 256 ^ k \<Longrightarrow> dropWhile (\<lambda>b. b = 0) (fixed_be k n) = be_bytes n"
proof (induction k arbitrary: n)
  case 0
  then show ?case by (simp add: be_bytes_0)
next
  case (Suc k)
  let ?m = "n div 256"
  from Suc.prems have m: "?m < 256 ^ k" by (simp add: less_mult_imp_div_less mult.commute)
  have IH: "dropWhile (\<lambda>b. b = 0) (fixed_be k ?m) = be_bytes ?m" by (rule Suc.IH [OF m])
  show ?case
  proof (cases "?m = 0")
    case True
    then have small: "n < 256" by (simp add: div_eq_0_iff)
    have zeros: "\<forall>x\<in>set (fixed_be k ?m). x = 0"
      using IH True by (simp add: be_bytes_0 dropWhile_eq_Nil_conv)
    show ?thesis
    proof (cases "n = 0")
      case True
      with zeros show ?thesis by (simp add: dropWhile_append be_bytes_0)
    next
      case False
      with small have "(of_nat n :: byte) \<noteq> 0" by (simp add: byte_of_nat_eq_0)
      moreover have "be_bytes n = [of_nat n]"
        using False small \<open>?m = 0\<close>
        by (subst be_bytes.simps) (simp add: be_bytes_eq_Nil)
      ultimately show ?thesis using zeros small by (simp add: dropWhile_append)
    qed
  next
    case False
    then have "n \<noteq> 0" by auto
    have "dropWhile (\<lambda>b. b = 0) (fixed_be k ?m) \<noteq> []"
      using IH False by (simp add: be_bytes_eq_Nil)
    then have "\<not> (\<forall>x\<in>set (fixed_be k ?m). x = 0)"
      by (simp add: dropWhile_eq_Nil_conv)
    then have "dropWhile (\<lambda>b. b = 0) (fixed_be (Suc k) n)
                 = dropWhile (\<lambda>b. b = 0) (fixed_be k ?m) @ [of_nat (n mod 256)]"
      by (simp add: dropWhile_append)
    also have "\<dots> = be_bytes ?m @ [of_nat (n mod 256)]"
      by (simp only: IH)
    also have "\<dots> = be_bytes n"
      using \<open>n \<noteq> 0\<close> by (subst (2) be_bytes.simps) simp
    finally show ?thesis .
  qed
qed

text \<open>The loop of \<open>int2base64\<close> skips exactly the leading zero bytes.\<close>

lemma skip_zero_dropWhile:
  "length bs = 8 \<Longrightarrow> skip \<le> 8 \<Longrightarrow>
     drop (skip_zero bs skip) bs = dropWhile (\<lambda>b. b = 0) (drop skip bs)"
proof (induction bs skip rule: skip_zero.induct)
  case (1 bs skip)
  show ?case
  proof (cases "skip < 8 \<and> bs ! skip = 0")
    case True
    then have "skip < length bs" using "1.prems" by simp
    then have d: "drop skip bs = bs ! skip # drop (Suc skip) bs"
      by (rule Cons_nth_drop_Suc [symmetric])
    have "drop (skip_zero bs (skip + 1)) bs = dropWhile (\<lambda>b. b = 0) (drop (skip + 1) bs)"
      using True "1.prems" by (intro "1.IH") auto
    with True d show ?thesis by (subst skip_zero.simps) simp
  next
    case False
    show ?thesis
    proof (cases "skip < 8")
      case True
      with False have nz: "bs ! skip \<noteq> 0" by simp
      from True have "skip < length bs" using "1.prems" by simp
      then have d: "drop skip bs = bs ! skip # drop (Suc skip) bs"
        by (rule Cons_nth_drop_Suc [symmetric])
      from False nz d show ?thesis by (subst skip_zero.simps) simp
    next
      case False
      with "1.prems" have "skip = 8" by simp
      with "1.prems" show ?thesis by (subst skip_zero.simps) simp
    qed
  qed
qed

lemma int2base64_be_bytes: "int2base64 i = bytes2base64 (be_bytes (unat i))"
proof -
  have lt: "unat i < 256 ^ 8" using unsigned_less [of i, where 'a = nat] by simp
  have "drop (skip_zero (PutUint64 i) 0) (PutUint64 i) = be_bytes (unat i)"
    using skip_zero_dropWhile [of "PutUint64 i" 0] dropWhile_fixed_be [OF lt]
    by (simp add: PutUint64_fixed_be length_fixed_be)
  then show ?thesis by (simp add: int2base64_def Let_def)
qed

lemma sint_nonneg_unat:
  assumes "0 \<le> sint (i :: 64 word)"
  shows "nat (sint i) = unat i"
proof -
  have "sint i < 2 ^ 63" using sint_lt [of i] by simp
  with assms have "take_bit 64 (sint i) = sint i"
    by (intro take_bit_int_eq_self) auto
  then have "uint i = sint i" using uint_sint [of i] by simp
  then show ?thesis by (simp add: unat_eq_nat_uint)
qed

lemma be_value_snoc: "be_value (bs @ [b]) = be_value bs * 256 + unat b"
  by (simp add: be_value_def)

lemma be_value_be_bytes: "be_value (be_bytes n) = n"
proof (induction n rule: be_bytes.induct)
  case (1 n)
  show ?case
  proof (cases "n = 0")
    case True
    then show ?thesis by (simp add: be_bytes_0 be_value_def)
  next
    case False
    then have "be_bytes n = be_bytes (n div 256) @ [of_nat (n mod 256)]"
      by (subst be_bytes.simps) simp
    moreover have "be_value (be_bytes (n div 256)) = n div 256"
      using False by (rule "1.IH")
    ultimately show ?thesis
      by (simp add: be_value_snoc unat_of_nat)
  qed
qed

lemma hd_be_bytes: "n \<noteq> 0 \<Longrightarrow> hd (be_bytes n) \<noteq> 0"
proof (induction n rule: be_bytes.induct)
  case (1 n)
  from "1.prems" have step: "be_bytes n = be_bytes (n div 256) @ [of_nat (n mod 256)]"
    by (subst be_bytes.simps) simp
  show ?case
  proof (cases "n div 256 = 0")
    case True
    then have "n < 256" by (simp add: div_eq_0_iff)
    with "1.prems" have "(of_nat n :: byte) \<noteq> 0" by (simp add: byte_of_nat_eq_0)
    with True \<open>n < 256\<close> step show ?thesis by (simp add: be_bytes_0)
  next
    case False
    then have "hd (be_bytes (n div 256)) \<noteq> 0" using "1.prems" by (intro "1.IH") auto
    moreover have "be_bytes (n div 256) \<noteq> []" using False by (simp add: be_bytes_eq_Nil)
    ultimately show ?thesis using step by simp
  qed
qed

subsection \<open>The base64 round trip\<close>

lemma index_of_nth:
  "distinct xs \<Longrightarrow> i < length xs \<Longrightarrow> index_of (xs ! i) xs = Some i"
proof (induction xs arbitrary: i)
  case Nil then show ?case by simp
next
  case (Cons x xs)
  then show ?case by (cases i) auto
qed

lemma index_of_encodeURL: "d < 64 \<Longrightarrow> index_of (encodeURL ! d) encodeURL = Some d"
  by (rule index_of_nth) (simp_all add: encodeURL_def)

lemma digits_of_chars:
  "\<forall>d\<in>set ds. d < 64 \<Longrightarrow> digits_of encodeURL (map ((!) encodeURL) ds) = Some ds"
  by (induction ds) (auto simp: index_of_encodeURL)

lemma sextets_less: "\<forall>d\<in>set (sextets bs). d < 64"
  by (induction bs rule: sextets.induct) (auto simp: Let_def)

lemma bytes2base64_sextets: "bytes2base64 bs = map ((!) encodeURL) (sextets bs)"
  unfolding bytes2base64_def
  by (induction bs rule: sextets.induct)
     (simp_all add: RawURLEncoding_def padding_def Let_def)

lemma digits_val:
  fixes v :: nat
  assumes "v < 16777216"
  shows "(v div 262144 mod 64) * 262144 + (v div 4096 mod 64) * 4096
           + (v div 64 mod 64) * 64 + v mod 64 = v"
proof -
  define q1 where "q1 = v div 64"
  define q2 where "q2 = q1 div 64"
  define q3 where "q3 = q2 div 64"
  have e1: "v = q1 * 64 + v mod 64" by (simp add: q1_def)
  have e2: "q1 = q2 * 64 + q1 mod 64" by (simp add: q2_def)
  have e3: "q2 = q3 * 64 + q2 mod 64" by (simp add: q3_def)
  have d2: "v div 4096 = q2" by (simp add: q2_def q1_def div_mult2_eq)
  have d3: "v div 262144 = q3" by (simp add: q3_def q2_def q1_def div_mult2_eq)
  have "q3 < 64" using assms unfolding d3 [symmetric] by simp
  then have m3: "q3 mod 64 = q3" by simp
  have "q3 * 262144 + (q2 mod 64) * 4096 + (q1 mod 64) * 64 + v mod 64 = v"
    using e1 e2 e3 by linarith
  then show ?thesis by (simp only: d2 d3 m3 q1_def [symmetric])
qed

lemma bytes3:
  fixes x y z :: nat
  assumes "x < 256" "y < 256" "z < 256"
  shows "(x * 65536 + y * 256 + z) div 65536 = x"
    and "(x * 65536 + y * 256 + z) div 256 mod 256 = y"
    and "(x * 65536 + y * 256 + z) mod 256 = z"
proof -
  show "(x * 65536 + y * 256 + z) div 65536 = x"
    using assms by (intro div_nat_eqI) auto
  have "(x * 65536 + y * 256 + z) div 256 = x * 256 + y"
    using assms by (intro div_nat_eqI) auto
  then show "(x * 65536 + y * 256 + z) div 256 mod 256 = y"
    using assms by simp
  have "x * 65536 + y * 256 + z = (x * 256 + y) * 256 + z" by simp
  then show "(x * 65536 + y * 256 + z) mod 256 = z"
    using assms by (simp only: mod_mult_self3) simp
qed

lemma byte_less: "unat (a :: byte) < 256"
  using unsigned_less [of a, where 'a = nat] by simp

lemma decode3:
  fixes a b c :: byte
  defines "v \<equiv> unat a * 65536 + unat b * 256 + unat c"
  shows "(v div 262144 mod 64) * 262144 + (v div 4096 mod 64) * 4096
           + (v div 64 mod 64) * 64 + v mod 64 = v"
    and "(of_nat (v div 65536) :: byte) = a"
    and "(of_nat (v div 256 mod 256) :: byte) = b"
    and "(of_nat (v mod 256) :: byte) = c"
proof -
  have "v < 16777216" using byte_less [of a] byte_less [of b] byte_less [of c]
    by (simp add: v_def)
  then show "(v div 262144 mod 64) * 262144 + (v div 4096 mod 64) * 4096
           + (v div 64 mod 64) * 64 + v mod 64 = v" by (rule digits_val)
  show "(of_nat (v div 65536) :: byte) = a"
    unfolding v_def by (simp only: bytes3 [OF byte_less byte_less byte_less]) simp
  show "(of_nat (v div 256 mod 256) :: byte) = b"
    unfolding v_def by (simp only: bytes3 [OF byte_less byte_less byte_less]) simp
  show "(of_nat (v mod 256) :: byte) = c"
    unfolding v_def by (simp only: bytes3 [OF byte_less byte_less byte_less]) simp
qed

lemma low_digits_zero:
  fixes x y :: nat
  shows "(x * 65536 + y * 256) mod 64 = 0"
    and "(x * 65536) mod 64 = 0"
    and "(x * 65536) div 64 mod 64 = 0"
proof -
  have "x * 65536 + y * 256 = (x * 1024 + y * 4) * 64" by simp
  then show "(x * 65536 + y * 256) mod 64 = 0" by (simp only: mod_mult_self2_is_0)
  have "x * 65536 = (x * 1024) * 64" by simp
  then show "(x * 65536) mod 64 = 0" by (simp only: mod_mult_self2_is_0)
  have "(x * 65536) div 64 = (x * 16) * 64" by simp
  then show "(x * 65536) div 64 mod 64 = 0" by (simp only: mod_mult_self2_is_0)
qed

lemma decode1:
  fixes a :: byte
  defines "v \<equiv> unat a * 65536"
  shows "(v div 262144 mod 64) * 262144 + (v div 4096 mod 64) * 4096 = v"
    and "(of_nat (v div 65536) :: byte) = a"
proof -
  have "v < 16777216" using byte_less [of a] by (simp add: v_def)
  then have "(v div 262144 mod 64) * 262144 + (v div 4096 mod 64) * 4096
           + (v div 64 mod 64) * 64 + v mod 64 = v" by (rule digits_val)
  moreover have "v div 64 mod 64 = 0" and "v mod 64 = 0"
    unfolding v_def by (rule low_digits_zero)+
  ultimately show "(v div 262144 mod 64) * 262144 + (v div 4096 mod 64) * 4096 = v"
    by linarith
  show "(of_nat (v div 65536) :: byte) = a" by (simp add: v_def)
qed

lemma decode2:
  fixes a b :: byte
  defines "v \<equiv> unat a * 65536 + unat b * 256"
  shows "(v div 262144 mod 64) * 262144 + (v div 4096 mod 64) * 4096
           + (v div 64 mod 64) * 64 = v"
    and "(of_nat (v div 65536) :: byte) = a"
    and "(of_nat (v div 256 mod 256) :: byte) = b"
proof -
  have v0: "v = unat a * 65536 + unat b * 256 + 0" by (simp add: v_def)
  have "v < 16777216" using byte_less [of a] byte_less [of b] by (simp add: v_def)
  then have "(v div 262144 mod 64) * 262144 + (v div 4096 mod 64) * 4096
           + (v div 64 mod 64) * 64 + v mod 64 = v" by (rule digits_val)
  moreover have "v mod 64 = 0"
    unfolding v_def by (rule low_digits_zero)
  ultimately show "(v div 262144 mod 64) * 262144 + (v div 4096 mod 64) * 4096
           + (v div 64 mod 64) * 64 = v"
    by linarith
  have "unat a < 256" "unat b < 256" "(0::nat) < 256" by (simp_all add: byte_less)
  note b3 = bytes3 [OF this]
  show "(of_nat (v div 65536) :: byte) = a"
    unfolding v0 by (simp only: b3) simp
  show "(of_nat (v div 256 mod 256) :: byte) = b"
    unfolding v0 by (simp only: b3) simp
qed

lemma bytes_of_digits_sextets: "bytes_of_digits (sextets bs) = Some bs"
proof (induction bs rule: sextets.induct)
  case 1
  show ?case by simp
next
  case (2 a)
  show ?case
    by (simp only: sextets.simps bytes_of_digits.simps Let_def decode1)
next
  case (3 a b)
  show ?case
    by (simp only: sextets.simps bytes_of_digits.simps Let_def decode2)
next
  case (4 a b c rest)
  show ?case
    by (simp only: sextets.simps bytes_of_digits.simps Let_def append.simps decode3 "4.IH"
          option.case)
qed

lemma DecodeString_bytes2base64:
  "DecodeString RawURLEncoding (bytes2base64 bs) = Some bs"
  by (simp add: DecodeString_def RawURLEncoding_def bytes2base64_sextets
        digits_of_chars sextets_less bytes_of_digits_sextets)

subsection \<open>int2base64\<close>

text \<open>
  C10. For every non-negative \<open>i\<close> (a 64-bit \<open>int\<close>, so below \<open>2^63\<close>), \<open>int2base64 i\<close> is the
  unpadded base64url encoding of the minimal big-endian bytes of \<open>i\<close>: these bytes have
  the value \<open>i\<close> and no leading zero byte, decoding the string gives bytes of value \<open>i\<close>,
  and \<open>int2base64 0\<close> is the empty string.
\<close>

theorem int2base64_minimal_big_endian:
  assumes "0 \<le> sint i"
  shows "int2base64 i = EncodeToString RawURLEncoding (be_bytes (nat (sint i)))
         \<and> be_value (be_bytes (nat (sint i))) = nat (sint i)
         \<and> (sint i \<noteq> 0 \<longrightarrow> hd (be_bytes (nat (sint i))) \<noteq> 0)
         \<and> (\<exists>bs. DecodeString RawURLEncoding (int2base64 i) = Some bs
                  \<and> int (be_value bs) = sint i)
         \<and> int2base64 0 = ''''"
proof -
  have u: "nat (sint i) = unat i" using assms by (rule sint_nonneg_unat)
  have enc: "int2base64 i = EncodeToString RawURLEncoding (be_bytes (nat (sint i)))"
    by (simp add: int2base64_be_bytes u bytes2base64_def)
  have val: "be_value (be_bytes (nat (sint i))) = nat (sint i)" by (rule be_value_be_bytes)
  have hd: "sint i \<noteq> 0 \<longrightarrow> hd (be_bytes (nat (sint i))) \<noteq> 0"
  proof
    assume "sint i \<noteq> 0"
    with assms have "nat (sint i) \<noteq> 0" by simp
    then show "hd (be_bytes (nat (sint i))) \<noteq> 0" by (rule hd_be_bytes)
  qed
  have "DecodeString RawURLEncoding (int2base64 i) = Some (be_bytes (unat i))"
    by (simp add: int2base64_be_bytes DecodeString_bytes2base64)
  moreover have "int (be_value (be_bytes (unat i))) = sint i"
    using assms u by (simp add: be_value_be_bytes del: of_nat_unat)
  ultimately have dec: "\<exists>bs. DecodeString RawURLEncoding (int2base64 i) = Some bs
                  \<and> int (be_value bs) = sint i" by blast
  have zero: "int2base64 0 = ''''"
    by (simp add: int2base64_be_bytes be_bytes_0 bytes2base64_def)
  from enc val hd dec zero show ?thesis by blast
qed

theorem int2base64_minimal_big_endian_witness:
  "(0::int) \<le> sint (65537 :: 64 word) \<and> int2base64 65537 = ''AQAB''
   \<and> DecodeString RawURLEncoding ''AQAB'' = Some [1, 0, 1]
   \<and> be_value [1, 0, 1] = 65537"
proof -
  have h: "(0::int) \<le> sint (65537 :: 64 word)" by simp
  have b: "be_bytes 65537 = [1, 0, 1]" by (simp add: be_bytes.simps)
  from int2base64_minimal_big_endian [OF h]
  have "int2base64 65537 = EncodeToString RawURLEncoding (be_bytes (nat (sint (65537 :: 64 word))))"
    by blast
  then have "int2base64 65537 = ''AQAB''"
    by (simp add: b RawURLEncoding_def encodeURL_def padding_def)
  moreover have "DecodeString RawURLEncoding ''AQAB'' = Some [1, 0, 1]"
    by (simp add: DecodeString_def RawURLEncoding_def encodeURL_def)
  moreover have "be_value [1, 0, 1] = 65537" by (simp add: be_value_def)
  ultimately show ?thesis using h by blast
qed

subsection \<open>The key set\<close>

text \<open>
  C7. \<open>JWKs\<close> succeeds exactly when the certificate can be created, and then returns one
  JWK: \<open>kid\<close> is the key ID of the manager, \<open>use\<close> is sig, \<open>alg\<close> is RS256, \<open>kty\<close> is RSA,
  \<open>e\<close> and \<open>n\<close> are the unpadded base64url encodings of the big-endian bytes of the public
  exponent and of the modulus, and \<open>x5c\<close> holds one certificate.
\<close>

theorem JWKs_single_key:
  "JWKs CreateCertificate key_id now1 now2 m hostname = Inr ks \<longleftrightarrow>
     (\<exists>der. CreateCertificate (cert_template hostname now1 now2)
              (cert_template hostname now1 now2) (public_key m) (private_key m) = Inr der
        \<and> ks = [\<lparr>KeyID = key_id m, Use = ''sig'', Algorithm = ''RS256'', KeyType = ''RSA'',
                  jwk_E = EncodeToString RawURLEncoding (be_bytes (unat (rsa_E (public_key m)))),
                  jwk_N = EncodeToString RawURLEncoding (be_bytes (nat \<bar>rsa_N (public_key m)\<bar>)),
                  X509 = [EncodeToString StdEncoding der]\<rparr>])"
  by (auto simp: JWKs_def makeCert_def Let_def int2base64_be_bytes bytes2base64_def
        big_Bytes_def split: sum.splits)

theorem JWKs_single_key_witness:
  "JWKs (\<lambda>t p pub (priv :: unit). Inr [1, 2, 3]) (\<lambda>m. ''key-1'') 0 0
     \<lparr>private_key = (), public_key = \<lparr>rsa_N = 3233, rsa_E = 65537\<rparr>\<rparr> ''localhost''
   = Inr [\<lparr>KeyID = ''key-1'', Use = ''sig'', Algorithm = ''RS256'', KeyType = ''RSA'',
           jwk_E = ''AQAB'', jwk_N = ''DKE'', X509 = [''AQID'']\<rparr>]"
proof -
  have e: "be_bytes 65537 = [1, 0, 1]" by (simp add: be_bytes.simps)
  have n: "be_bytes 3233 = [12, 161]" by (simp add: be_bytes.simps)
  show ?thesis
    by (subst JWKs_single_key)
       (simp add: e n RawURLEncoding_def StdEncoding_def encodeURL_def encodeStd_def
          padding_def)
qed

text \<open>
  The template is both subject and issuer of the certificate, its common name is the
  host name, and its bounds are the first reading of the clock and one hour after the
  second reading.
\<close>

lemma makeCert_self_signed:
  "makeCert CreateCertificate now1 now2 hostname pub priv =
     (case CreateCertificate (cert_template hostname now1 now2)
             (cert_template hostname now1 now2) pub priv of
        Inl err \<Rightarrow> Inl err
      | Inr der \<Rightarrow> Inr (EncodeToString StdEncoding der))
   \<and> Subject_CommonName (cert_template hostname now1 now2) = hostname
   \<and> NotBefore (cert_template hostname now1 now2) = now1
   \<and> NotAfter (cert_template hostname now1 now2) = now2 + Hour"
  by (simp add: makeCert_def cert_template_def Let_def)

text \<open>When both readings fall into the same second, the certificate is valid for one hour.\<close>

lemma validity_seconds_same_second:
  assumes "whole_seconds now1 = whole_seconds now2"
  shows "validity_seconds (cert_template hostname now1 now2) = 3600"
proof -
  have "(now2 + 3600 * 1000000000) div 1000000000 = now2 div 1000000000 + 3600"
    by (rule div_mult_self1 [of 1000000000 now2 3600, simplified add.commute [of 3600]]) simp
  then show ?thesis
    using assms by (simp add: validity_seconds_def whole_seconds_def cert_template_def Hour_def)
qed

text \<open>
  C8. The certificate is to be valid for exactly one hour from its NotBefore time. The
  code reads the clock twice: when the first reading is 0.999999999 s and the second
  1.000000000 s, the bounds of the template are one hour and one nanosecond apart, and
  the certificate is valid for 3601 seconds.
\<close>

theorem makeCert_validity_second_boundary:
  "NotBefore (cert_template ''localhost'' 999999999 1000000000) = 999999999
   \<and> NotAfter (cert_template ''localhost'' 999999999 1000000000) = 3601000000000
   \<and> NotAfter (cert_template ''localhost'' 999999999 1000000000)
       - NotBefore (cert_template ''localhost'' 999999999 1000000000) = Hour + 1
   \<and> validity_seconds (cert_template ''localhost'' 999999999 1000000000) = 3601"
  by (simp add: cert_template_def Hour_def validity_seconds_def whole_seconds_def)

end
